theory Spec2Isabelle
  imports Complex_Main
begin

section \<open>Errors, sequencing and loops\<close>

text \<open>
  The library signals three kinds of failure. \<open>vec::operator[]\<close> throws
  \<open>std::out_of_range\<close>; an exception that leaves a function declared \<open>noexcept\<close>
  calls \<open>std::terminate\<close>; indexing the \<open>std::array\<close> of columns of a matrix past its
  end is undefined behaviour. Each is a value of \<open>error\<close>, and a computation that may
  fail returns \<open>error + 'a\<close>.
\<close>

datatype error = out_of_range | terminate | undefined_behaviour

definition and_then :: "error + 'a \<Rightarrow> ('a \<Rightarrow> error + 'b) \<Rightarrow> error + 'b" where
  "and_then m f = (case m of Inl e \<Rightarrow> Inl e | Inr a \<Rightarrow> f a)"

text \<open>The \<open>noexcept\<close> specifier: an escaping exception becomes \<open>std::terminate\<close>.\<close>

definition noexcept :: "error + 'a \<Rightarrow> error + 'a" where
  "noexcept m = (case m of Inl out_of_range \<Rightarrow> Inl terminate | _ \<Rightarrow> m)"

text \<open>
  \<open>for (std::size_t i = lo; i < hi; ++i) body\<close>: the body is run for each index in
  turn on the state it is handed; the first failure ends the loop.
\<close>

primrec for_each :: "nat list \<Rightarrow> (nat \<Rightarrow> 's \<Rightarrow> error + 's) \<Rightarrow> 's \<Rightarrow> error + 's" where
  "for_each [] body s = Inr s"
| "for_each (i # is) body s = and_then (body i s) (for_each is body)"

definition for_loop :: "nat \<Rightarrow> nat \<Rightarrow> (nat \<Rightarrow> 's \<Rightarrow> error + 's) \<Rightarrow> 's \<Rightarrow> error + 's" where
  "for_loop lo hi body s = for_each [lo..<hi] body s"

section \<open>The element type \<open>double\<close>\<close>

text \<open>
  The values of \<open>double\<close> (IEEE 754 binary64) that are integers. A sum, difference or
  product of two integers is an integer, and the operation returns it rounded to the
  nearest value with a significand of 53 bits, a tie going to the even significand (the
  default rounding mode); the result is again an integer. \<open>significand_shift a\<close> is the
  number of low bits of \<open>a\<close> that do not fit the significand. Overflow (magnitudes from
  \<open>2\<^sup>1\<^sup>0\<^sup>2\<^sup>4\<close>) is not modelled.
\<close>

function significand_shift :: "nat \<Rightarrow> nat" where
  "significand_shift a = (if a < 2 ^ 53 then 0 else Suc (significand_shift (a div 2)))"
  by pat_completeness auto
termination
  by (relation "measure id") auto

declare significand_shift.simps [simp del]

definition round_to_nearest_even :: "int \<Rightarrow> int" where
  "round_to_nearest_even n =
     (let a = nat \<bar>n\<bar>;
          q = 2 ^ significand_shift a;
          k = a div q;
          r = a mod q;
          k' = (if 2 * r < q then k else if q < 2 * r then k + 1
                else if even k then k else k + 1)
      in sgn n * int (k' * q))"

datatype double = Double (to_int: int)

instantiation double :: "{zero, one, plus, minus, times}"
begin
definition zero_double :: double where
  "zero_double = Double 0"
definition one_double :: double where
  "one_double = Double 1"
definition plus_double :: "double \<Rightarrow> double \<Rightarrow> double" where
  "plus_double a b = Double (round_to_nearest_even (to_int a + to_int b))"
definition minus_double :: "double \<Rightarrow> double \<Rightarrow> double" where
  "minus_double a b = Double (round_to_nearest_even (to_int a - to_int b))"
definition times_double :: "double \<Rightarrow> double \<Rightarrow> double" where
  "times_double a b = Double (round_to_nearest_even (to_int a * to_int b))"
instance ..
end

section \<open>Vectors (\<open>struct vec\<close> and \<open>src/include/ndml/vec/vec.inl\<close>)\<close>

text \<open>
  \<open>struct vec<N, T>\<close> has the four members \<open>x\<close>, \<open>y\<close>, \<open>z\<close>, \<open>w\<close>; a member whose
  index is not below \<open>N\<close> has the empty burn type. The template parameter \<open>N\<close> is the
  field \<open>dimension\<close>. The members are called \<open>vec_x\<close> ... \<open>vec_w\<close> here, since a
  constant named \<open>x\<close> would capture every variable of that name. A burn member carries
  no value; the model keeps it at the element type's zero (see \<open>wf_vec\<close>).
\<close>

datatype 'a vec = Vec (dimension: nat) (vec_x: 'a) (vec_y: 'a) (vec_z: 'a) (vec_w: 'a)

text \<open>A reference returned by the subscript operator designates one named member.\<close>

datatype reference = ref_x | ref_y | ref_z | ref_w

fun deref :: "'a vec \<Rightarrow> reference \<Rightarrow> 'a" where
  "deref v ref_x = vec_x v"
| "deref v ref_y = vec_y v"
| "deref v ref_z = vec_z v"
| "deref v ref_w = vec_w v"

fun assign :: "'a vec \<Rightarrow> reference \<Rightarrow> 'a \<Rightarrow> 'a vec" where
  "assign (Vec n a b c d) ref_x e = Vec n e b c d"
| "assign (Vec n a b c d) ref_y e = Vec n a e c d"
| "assign (Vec n a b c d) ref_z e = Vec n a b e d"
| "assign (Vec n a b c d) ref_w e = Vec n a b c e"

text \<open>
  \<open>vec::operator[]\<close>: a \<open>switch\<close> on \<open>i\<close> whose case \<open>k\<close> returns member \<open>k\<close> when
  \<open>k < N\<close> and falls through to the next case otherwise; the \<open>default\<close> case throws.
  Case \<open>k\<close> is reached when \<open>i = k\<close>, or when \<open>i < k\<close> and every case between fell
  through.
\<close>

definition subscript :: "nat \<Rightarrow> nat \<Rightarrow> error + reference" where
  "subscript N i =
     (if i = 0 \<and> 0 < N then Inr ref_x
      else if i \<le> 1 \<and> 1 < N then Inr ref_y
      else if i \<le> 2 \<and> 2 < N then Inr ref_z
      else if i \<le> 3 \<and> 3 < N then Inr ref_w
      else Inl out_of_range)"

text \<open>Reading \<open>v[i]\<close> and the statement \<open>v[i] = a\<close> as a function to the new vector.\<close>

definition vec_get :: "'a vec \<Rightarrow> nat \<Rightarrow> error + 'a" where
  "vec_get v i = and_then (subscript (dimension v) i) (\<lambda>r. Inr (deref v r))"

definition vec_set :: "'a vec \<Rightarrow> nat \<Rightarrow> 'a \<Rightarrow> error + 'a vec" where
  "vec_set v i a = and_then (subscript (dimension v) i) (\<lambda>r. Inr (assign v r a))"

text \<open>
  The statement \<open>v[i] = a\<close> as a state transformer on the variable \<open>v\<close>: the exception,
  if any, and the value of \<open>v\<close> afterwards. The subscript is evaluated first, so a throw
  happens before anything is stored.
\<close>

definition subscript_assign :: "'a vec \<Rightarrow> nat \<Rightarrow> 'a \<Rightarrow> error option \<times> 'a vec" where
  "subscript_assign v i a =
     (case subscript (dimension v) i of
        Inl e \<Rightarrow> (Some e, v)
      | Inr r \<Rightarrow> (None, assign v r a))"

text \<open>The defaulted default constructor value-initialises every member.\<close>

definition vec_default :: "nat \<Rightarrow> 'a::zero vec" where
  "vec_default N = Vec N 0 0 0 0"

text \<open>
  The constructor from components:
  \<open>std::size_t i = 0; (((*this)[i++] = std::move(components)), ...);\<close>
\<close>

definition vec_ctor :: "nat \<Rightarrow> 'a::zero list \<Rightarrow> error + 'a vec" where
  "vec_ctor N components =
     noexcept (for_loop 0 (length components) (\<lambda>i v. vec_set v i (components ! i)) (vec_default N))"

text \<open>
  Specification-level view of a vector: \<open>comp v i\<close> is the member with index \<open>i\<close>, and
  \<open>vec_of N f\<close> is the vector of dimension \<open>N\<close> whose member \<open>i < N\<close> is \<open>f i\<close>. A vector
  is well formed when its dimension is one the \<open>static_assert\<close> admits and its burn
  members are at zero.
\<close>

definition comp :: "'a vec \<Rightarrow> nat \<Rightarrow> 'a" where
  "comp v i = (if i = 0 then vec_x v else if i = 1 then vec_y v else if i = 2 then vec_z v else vec_w v)"

definition vec_of :: "nat \<Rightarrow> (nat \<Rightarrow> 'a) \<Rightarrow> 'a::zero vec" where
  "vec_of N f = Vec N (if 0 < N then f 0 else 0) (if 1 < N then f 1 else 0)
                      (if 2 < N then f 2 else 0) (if 3 < N then f 3 else 0)"

definition wf_vec :: "'a::zero vec \<Rightarrow> bool" where
  "wf_vec v = (0 < dimension v \<and> dimension v \<le> 4 \<and> v = vec_of (dimension v) (comp v))"

section \<open>Vector operations (\<open>src/include/ndml/vec/operation.inl\<close>)\<close>

text \<open>
  The element type \<open>T\<close> is a type parameter. Most properties below are about exact
  arithmetic: a ring or field of HOL, or \<open>real\<close> where a square root is taken. Rounding
  is modelled for \<open>double\<close> on integer values only (the type \<open>double\<close> above), for
  the determinant. HOL's \<open>x / 0\<close> is \<open>0\<close>, where the program yields an infinity or a
  NaN; no theorem below rests on a division by zero.
\<close>

text \<open>
  \<open>transform(v, f)\<close> is \<open>std::ranges::for_each(v, f)\<close>: the iterator runs over the
  positions \<open>0 .. N - 1\<close> and dereferences to \<open>v[pos]\<close>; \<open>f\<close> updates the component
  it is handed. \<open>zip_transform(lhs, rhs, f)\<close> calls \<open>f(lhs[i], rhs[i])\<close> for each
  \<open>i < N\<close>.
\<close>

definition transform :: "'a vec \<Rightarrow> ('a \<Rightarrow> 'a) \<Rightarrow> error + 'a vec" where
  "transform v f =
     for_loop 0 (dimension v) (\<lambda>i u. and_then (vec_get u i) (\<lambda>a. vec_set u i (f a))) v"

definition zip_transform :: "'a vec \<Rightarrow> 'a vec \<Rightarrow> ('a \<Rightarrow> 'a \<Rightarrow> 'a) \<Rightarrow> error + 'a vec" where
  "zip_transform lhs rhs f =
     for_loop 0 (dimension lhs)
       (\<lambda>i u. and_then (vec_get u i) (\<lambda>a. and_then (vec_get rhs i) (\<lambda>b. vec_set u i (f a b))))
       lhs"

definition dot :: "'a::semiring_0 vec \<Rightarrow> 'a vec \<Rightarrow> error + 'a" where
  "dot lhs rhs =
     noexcept (for_loop 0 (dimension lhs)
       (\<lambda>i s. and_then (vec_get lhs i) (\<lambda>a. and_then (vec_get rhs i) (\<lambda>b. Inr (s + a * b))))
       0)"

definition cross :: "'a::ring vec \<Rightarrow> 'a vec \<Rightarrow> error + 'a vec" where
  "cross lhs rhs =
     noexcept (vec_ctor 3
       [vec_y lhs * vec_z rhs - vec_z lhs * vec_y rhs,
        vec_z lhs * vec_x rhs - vec_x lhs * vec_z rhs,
        vec_x lhs * vec_y rhs - vec_y lhs * vec_x rhs])"

definition norm_squared :: "'a::semiring_0 vec \<Rightarrow> error + 'a" where
  "norm_squared v = noexcept (dot v v)"

text \<open>\<open>norm\<close> returns \<open>std::sqrt(norm_squared(v))\<close>; on exact reals that is \<open>sqrt\<close>.\<close>

definition norm_vec :: "real vec \<Rightarrow> error + real" where
  "norm_vec v = noexcept (and_then (norm_squared v) (\<lambda>s. Inr (sqrt s)))"

text \<open>
  \<open>operator+\<close> copies \<open>lhs\<close> and applies \<open>+=\<close>, a \<open>zip_transform\<close> with
  \<open>meta::addition_assignment\<close>; the scalar operators copy the vector and apply
  \<open>*=\<close> or \<open>/=\<close>, a \<open>transform\<close> with \<open>component *= scale\<close> or \<open>component /= scale\<close>.
  \<open>scale * v\<close> returns \<open>v * scale\<close>.
\<close>

definition vec_add :: "'a::plus vec \<Rightarrow> 'a vec \<Rightarrow> error + 'a vec" where
  "vec_add lhs rhs = noexcept (noexcept (zip_transform lhs rhs (\<lambda>a b. a + b)))"

definition vec_mul_scalar :: "'a::times vec \<Rightarrow> 'a \<Rightarrow> error + 'a vec" where
  "vec_mul_scalar v scale = noexcept (noexcept (transform v (\<lambda>a. a * scale)))"

definition scalar_mul_vec :: "'a::times \<Rightarrow> 'a vec \<Rightarrow> error + 'a vec" where
  "scalar_mul_vec scale v = noexcept (vec_mul_scalar v scale)"

definition vec_div_scalar :: "'a::inverse vec \<Rightarrow> 'a \<Rightarrow> error + 'a vec" where
  "vec_div_scalar v scale = noexcept (noexcept (transform v (\<lambda>a. a / scale)))"

text \<open>
  \<open>operator==\<close> on vectors is \<open>std::ranges::equal(lhs, rhs)\<close>: the components are
  compared in index order through the iterators, which dereference to \<open>v[pos]\<close>; the
  first difference ends the comparison.
\<close>

primrec equal_range :: "nat list \<Rightarrow> (nat \<Rightarrow> error + bool) \<Rightarrow> error + bool" where
  "equal_range [] same = Inr True"
| "equal_range (i # is) same =
     and_then (same i) (\<lambda>b. if b then equal_range is same else Inr False)"

definition vec_eq :: "'a vec \<Rightarrow> 'a vec \<Rightarrow> error + bool" where
  "vec_eq lhs rhs =
     noexcept (equal_range [0..<dimension lhs]
       (\<lambda>i. and_then (vec_get lhs i) (\<lambda>a. and_then (vec_get rhs i) (\<lambda>b. Inr (a = b)))))"

section \<open>Matrices (\<open>src/include/ndml/mat/mat.hpp\<close>, \<open>src/include/ndml/mat/mat.inl\<close>)\<close>

text \<open>
  \<open>struct mat<R, C, T>\<close> holds \<open>std::array<vec<R, T>, C> columns_\<close>. The template
  parameter \<open>R\<close> is the field \<open>row_count\<close>; \<open>column_count\<close> is the length of the array.
  The member is called \<open>columns\<close> here (a name cannot end in an underscore).
\<close>

datatype 'a mat = Mat (row_count: nat) (columns: "'a vec list")

definition column_count :: "'a mat \<Rightarrow> nat" where
  "column_count m = length (columns m)"

text \<open>The defaulted default constructor: every column value-initialised.\<close>

definition mat_default :: "nat \<Rightarrow> nat \<Rightarrow> 'a::zero mat" where
  "mat_default R C = Mat R (replicate C (vec_default R))"

text \<open>The constructor from columns, \<open>columns_{std::move(columns)...}\<close>.\<close>

definition mat_ctor :: "nat \<Rightarrow> 'a vec list \<Rightarrow> 'a mat" where
  "mat_ctor R cols = Mat R cols"

text \<open>
  \<open>m[column]\<close> is \<open>self.columns_[column]\<close>, unchecked; \<open>m[column, row]\<close> is
  \<open>self[column][row]\<close> inside a \<open>noexcept\<close> operator, so the vector's range check ends
  in \<open>std::terminate\<close>. \<open>store_column\<close> writes a column back into the array.
\<close>

definition mat_column :: "'a mat \<Rightarrow> nat \<Rightarrow> error + 'a vec" where
  "mat_column m c = (if c < length (columns m) then Inr (columns m ! c) else Inl undefined_behaviour)"

definition store_column :: "'a mat \<Rightarrow> nat \<Rightarrow> 'a vec \<Rightarrow> 'a mat" where
  "store_column m c col = Mat (row_count m) ((columns m)[c := col])"

definition mat_get :: "'a mat \<Rightarrow> nat \<Rightarrow> nat \<Rightarrow> error + 'a" where
  "mat_get m c r = noexcept (and_then (noexcept (mat_column m c)) (\<lambda>col. vec_get col r))"

definition mat_set :: "'a mat \<Rightarrow> nat \<Rightarrow> nat \<Rightarrow> 'a \<Rightarrow> error + 'a mat" where
  "mat_set m c r a =
     noexcept (and_then (noexcept (mat_column m c))
       (\<lambda>col. and_then (vec_set col r a) (\<lambda>col'. Inr (store_column m c col'))))"

text \<open>
  The constructor from a scalar:
  \<open>for (std::size_t i = 0; i < column_count; ++i) (*this)[i, i] = static_cast<value_type>(scale);\<close>
\<close>

definition mat_scalar :: "nat \<Rightarrow> nat \<Rightarrow> 'a::zero \<Rightarrow> error + 'a mat" where
  "mat_scalar R C scale = noexcept (for_loop 0 C (\<lambda>i m. mat_set m i i scale) (mat_default R C))"

text \<open>\<open>transpose\<close>: \<open>mat<C, R, T> t; ... t[j, i] = m[i, j];\<close>\<close>

definition transpose :: "'a::zero mat \<Rightarrow> error + 'a mat" where
  "transpose m =
     noexcept (for_loop 0 (column_count m)
       (\<lambda>i. for_loop 0 (row_count m) (\<lambda>j t. and_then (mat_get m i j) (\<lambda>a. mat_set t j i a)))
       (mat_default (column_count m) (row_count m)))"

text \<open>The closed-form determinants of \<open>mat<2, 2, T>\<close> and \<open>mat<3, 3, T>\<close>.\<close>

definition determinant_2x2 :: "'a::ring mat \<Rightarrow> error + 'a" where
  "determinant_2x2 m =
     noexcept (
       and_then (noexcept (mat_column m 0)) (\<lambda>m0.
       and_then (noexcept (mat_column m 1)) (\<lambda>m1.
       and_then (vec_get m0 0) (\<lambda>m00.
       and_then (vec_get m1 1) (\<lambda>m11.
       and_then (vec_get m0 1) (\<lambda>m01.
       and_then (vec_get m1 0) (\<lambda>m10.
       Inr (m00 * m11 - m01 * m10))))))))"

definition determinant_3x3 :: "'a::{plus,minus,times} mat \<Rightarrow> error + 'a" where
  "determinant_3x3 m =
     noexcept (
       and_then (noexcept (mat_column m 0)) (\<lambda>m0.
       and_then (vec_get m0 0) (\<lambda>m00.
       and_then (vec_get m0 1) (\<lambda>m01.
       and_then (vec_get m0 2) (\<lambda>m02.
       and_then (noexcept (mat_column m 1)) (\<lambda>m1.
       and_then (vec_get m1 0) (\<lambda>m10.
       and_then (vec_get m1 1) (\<lambda>m11.
       and_then (vec_get m1 2) (\<lambda>m12.
       and_then (noexcept (mat_column m 2)) (\<lambda>m2.
       and_then (vec_get m2 0) (\<lambda>m20.
       and_then (vec_get m2 1) (\<lambda>m21.
       and_then (vec_get m2 2) (\<lambda>m22.
       Inr ((m02 * m10 * m21) + (m00 * m11 * m22) + (m01 * m12 * m20)
            - (m01 * m10 * m22) - (m02 * m11 * m20) - (m00 * m12 * m21)))))))))))))))"

text \<open>
  \<open>m / scale\<close> copies \<open>m\<close> and applies \<open>/=\<close>:
  \<open>std::ranges::for_each(m, [&scale](auto& column) { return column /= scale; })\<close>,
  where \<open>column /= scale\<close> is the vector's \<open>transform\<close> with \<open>component /= scale\<close>.
\<close>

primrec for_each_column :: "('a vec \<Rightarrow> error + 'a vec) \<Rightarrow> 'a vec list \<Rightarrow> error + 'a vec list" where
  "for_each_column f [] = Inr []"
| "for_each_column f (col # cols) =
     and_then (f col) (\<lambda>col'. and_then (for_each_column f cols) (\<lambda>cols'. Inr (col' # cols')))"

definition mat_div_scalar :: "'a::inverse mat \<Rightarrow> 'a \<Rightarrow> error + 'a mat" where
  "mat_div_scalar m scale =
     noexcept (noexcept (
       and_then (for_each_column (\<lambda>col. noexcept (transform col (\<lambda>a. a / scale))) (columns m))
         (\<lambda>cols. Inr (Mat (row_count m) cols))))"

text \<open>
  The closed-form inverse of \<open>mat<2, 2, T>\<close>, with the source's
  \<open>auto const det = m00 * m11 - m01 * m11;\<close>
\<close>

definition inverse_2x2 :: "'a::field mat \<Rightarrow> error + 'a mat" where
  "inverse_2x2 m =
     noexcept (
       and_then (noexcept (mat_column m 0)) (\<lambda>m0.
       and_then (vec_get m0 0) (\<lambda>m00.
       and_then (vec_get m0 1) (\<lambda>m01.
       and_then (noexcept (mat_column m 1)) (\<lambda>m1.
       and_then (vec_get m1 0) (\<lambda>m10.
       and_then (vec_get m1 1) (\<lambda>m11.
       let det = m00 * m11 - m01 * m11 in
       and_then (vec_ctor 2 [m11, - m01]) (\<lambda>c0.
       and_then (vec_ctor 2 [- m10, m00]) (\<lambda>c1.
       mat_div_scalar (mat_ctor 2 [c0, c1]) det)))))))))"

text \<open>
  The matrix product: \<open>mat<N, K, T> p;\<close> and, for \<open>i < lhs.row_count\<close>,
  \<open>j < rhs.column_count\<close>, \<open>k < lhs.column_count\<close>:
  \<open>p[j, i] += lhs[k, i] * rhs[j, k];\<close>
  \<open>lhs *= rhs\<close> is \<open>lhs = lhs * rhs\<close>; the function gives the new value of \<open>lhs\<close>.
\<close>

definition mat_mul :: "'a::semiring_0 mat \<Rightarrow> 'a mat \<Rightarrow> error + 'a mat" where
  "mat_mul lhs rhs =
     noexcept (for_loop 0 (row_count lhs)
       (\<lambda>i. for_loop 0 (column_count rhs)
         (\<lambda>j. for_loop 0 (column_count lhs)
           (\<lambda>k p. and_then (mat_get lhs k i) (\<lambda>a.
                   and_then (mat_get rhs j k) (\<lambda>b.
                   and_then (mat_get p j i) (\<lambda>c. mat_set p j i (c + a * b)))))))
       (mat_default (row_count lhs) (column_count rhs)))"

definition mat_mul_assign :: "'a::semiring_0 mat \<Rightarrow> 'a mat \<Rightarrow> error + 'a mat" where
  "mat_mul_assign lhs rhs = noexcept (mat_mul lhs rhs)"

text \<open>
  The matrix-vector product: \<open>vec<N, T> p;\<close> and, for \<open>i < m.row_count\<close>,
  \<open>k < m.column_count\<close>: \<open>p[i] += m[k, i] * v[k];\<close>
\<close>

definition mat_mul_vec :: "'a::semiring_0 mat \<Rightarrow> 'a vec \<Rightarrow> error + 'a vec" where
  "mat_mul_vec m v =
     noexcept (for_loop 0 (row_count m)
       (\<lambda>i. for_loop 0 (column_count m)
         (\<lambda>k p. and_then (mat_get m k i) (\<lambda>a.
                 and_then (vec_get v k) (\<lambda>b.
                 and_then (vec_get p i) (\<lambda>c. vec_set p i (c + a * b))))))
       (vec_default (row_count m)))"

text \<open>
  \<open>operator==\<close> on matrices is \<open>std::ranges::equal(lhs, rhs)\<close> over the two arrays of
  columns, with the vectors' \<open>operator==\<close>.
\<close>

fun columns_equal :: "'a vec list \<Rightarrow> 'a vec list \<Rightarrow> error + bool" where
  "columns_equal [] [] = Inr True"
| "columns_equal (a # as) (b # bs) =
     and_then (vec_eq a b) (\<lambda>e. if e then columns_equal as bs else Inr False)"
| "columns_equal _ _ = Inr False"

definition mat_eq :: "'a mat \<Rightarrow> 'a mat \<Rightarrow> error + bool" where
  "mat_eq lhs rhs = noexcept (columns_equal (columns lhs) (columns rhs))"

section \<open>Matrix transforms (\<open>translation\<close>, declared in \<open>src/include/ndml/mat/transform.hpp\<close>)\<close>

text \<open>
  \<open>translation\<close>: \<open>mat<N + 1, N + 1, T> t{T{1}};\<close> and, for \<open>i < N\<close>,
  \<open>t[N][i] = v[i];\<close>
\<close>

definition translation :: "'a::zero_neq_one vec \<Rightarrow> error + 'a mat" where
  "translation v =
     noexcept (
       and_then (mat_scalar (dimension v + 1) (dimension v + 1) 1)
         (for_loop 0 (dimension v)
           (\<lambda>i t. and_then (vec_get v i) (\<lambda>a.
                   and_then (noexcept (mat_column t (dimension v))) (\<lambda>col.
                   and_then (vec_set col i a) (\<lambda>col'.
                   Inr (store_column t (dimension v) col')))))))"

section \<open>Quaternions (\<open>src/include/ndml/quat/quat.hpp\<close>)\<close>

text \<open>
  \<open>struct quat<T> : vec<4, T>\<close>. The constructor from four scalars initialises the
  base with \<open>vec<4, T>{x, y, z, w}\<close>.
\<close>

type_synonym 'a quat = "'a vec"

definition quat :: "'a::zero \<Rightarrow> 'a \<Rightarrow> 'a \<Rightarrow> 'a \<Rightarrow> error + 'a quat" where
  "quat a b c d = noexcept (vec_ctor 4 [a, b, c, d])"

text \<open>The Hamilton product, \<open>operator*(quat<T> const&, quat<T> const&)\<close>.\<close>

definition quat_mul :: "'a::ring quat \<Rightarrow> 'a quat \<Rightarrow> error + 'a quat" where
  "quat_mul lhs rhs =
     noexcept (quat
       (vec_w lhs * vec_x rhs + vec_x lhs * vec_w rhs + vec_y lhs * vec_z rhs - vec_z lhs * vec_y rhs)
       (vec_w lhs * vec_y rhs - vec_x lhs * vec_z rhs + vec_y lhs * vec_w rhs + vec_z lhs * vec_x rhs)
       (vec_w lhs * vec_z rhs + vec_x lhs * vec_y rhs - vec_y lhs * vec_x rhs + vec_z lhs * vec_w rhs)
       (vec_w lhs * vec_w rhs - vec_x lhs * vec_x rhs - vec_y lhs * vec_y rhs - vec_z lhs * vec_z rhs))"

text \<open>
  Conjugation of a vector, \<open>operator*(quat<T> const&, vec<3, T> const&)\<close>:
  \<open>imag{q.x, q.y, q.z}\<close>, \<open>ort{cross(imag, v)}\<close>,
  \<open>return v + static_cast<T>(2) * (q.w * ort + cross(imag, ort));\<close>
\<close>

definition quat_mul_vec :: "'a::ring_1 quat \<Rightarrow> 'a vec \<Rightarrow> error + 'a vec" where
  "quat_mul_vec q v =
     noexcept (
       and_then (vec_ctor 3 [vec_x q, vec_y q, vec_z q]) (\<lambda>imag.
       and_then (cross imag v) (\<lambda>ort.
       and_then (scalar_mul_vec (vec_w q) ort) (\<lambda>s.
       and_then (cross imag ort) (\<lambda>t.
       and_then (vec_add s t) (\<lambda>u.
       and_then (scalar_mul_vec 2 u) (\<lambda>d.
       vec_add v d)))))))"

text \<open>
  \<open>axis_angle\<close>, on exact reals. \<open>std::numeric_limits<T>::epsilon()\<close> and \<open>std::atan2\<close>
  belong to the standard library and are parameters. \<open>return {}\<close> value-initialises the
  pair.
\<close>

definition axis_angle :: "real \<Rightarrow> (real \<Rightarrow> real \<Rightarrow> real) \<Rightarrow> real quat \<Rightarrow> error + real vec \<times> real" where
  "axis_angle epsilon atan2 q =
     noexcept (
       and_then (vec_ctor 3 [vec_x q, vec_y q, vec_z q]) (\<lambda>imag.
       and_then (norm_vec imag) (\<lambda>imag_norm.
       if imag_norm \<le> epsilon then Inr (vec_default 3, 0)
       else and_then (vec_div_scalar imag imag_norm) (\<lambda>axis.
            Inr (axis, 2 * atan2 imag_norm (vec_w q))))))"

section \<open>Specification-level view of a matrix\<close>

text \<open>
  \<open>entry m c r\<close> is the element of column \<open>c\<close> and row \<open>r\<close>; \<open>mat_of R C f\<close> is the
  matrix with \<open>R\<close> rows and \<open>C\<close> columns whose element \<open>(c, r)\<close> is \<open>f c r\<close>. A matrix is
  well formed when it has a column, every column is a well-formed vector of dimension
  \<open>R\<close> (so \<open>0 < R \<le> 4\<close>, by the vector's \<open>static_assert\<close>).
\<close>

definition entry :: "'a mat \<Rightarrow> nat \<Rightarrow> nat \<Rightarrow> 'a" where
  "entry m c r = comp (columns m ! c) r"

definition mat_of :: "nat \<Rightarrow> nat \<Rightarrow> (nat \<Rightarrow> nat \<Rightarrow> 'a) \<Rightarrow> 'a::zero mat" where
  "mat_of R C f = Mat R (map (\<lambda>c. vec_of R (f c)) [0..<C])"

definition wf_mat :: "'a::zero mat \<Rightarrow> bool" where
  "wf_mat m = (0 < column_count m \<and> 0 < row_count m \<and> row_count m \<le> 4 \<and>
     list_all (\<lambda>col. wf_vec col \<and> dimension col = row_count m) (columns m))"

section \<open>Basic facts\<close>

lemma and_then_Inr [simp]: "and_then (Inr a) f = f a"
  by (simp add: and_then_def)

lemma and_then_Inl [simp]: "and_then (Inl e) f = Inl e"
  by (simp add: and_then_def)

lemma noexcept_Inr [simp]: "noexcept (Inr a) = Inr a"
  by (simp add: noexcept_def)

lemma noexcept_Inl [simp]:
  "noexcept (Inl e) = Inl (if e = out_of_range then terminate else e)"
  by (cases e) (simp_all add: noexcept_def)

lemma for_each_append:
  "for_each (xs @ ys) body s = and_then (for_each xs body s) (for_each ys body)"
  by (induction xs arbitrary: s) (auto simp: and_then_def split: sum.splits)

lemma for_loop_empty [simp]: "for_loop lo lo body s = Inr s"
  by (simp add: for_loop_def)

lemma for_loop_Suc:
  "lo \<le> hi \<Longrightarrow> for_loop lo (Suc hi) body s = and_then (for_loop lo hi body s) (body hi)"
proof -
  have "for_each [hi] body = body hi"
    by (rule ext) (simp add: and_then_def split: sum.splits)
  then show ?thesis
    if "lo \<le> hi" using that by (simp add: for_loop_def for_each_append)
qed

lemma for_loop_first:
  "lo < hi \<Longrightarrow> for_loop lo hi body s = and_then (body lo s) (for_loop (Suc lo) hi body)"
proof -
  have "for_each [Suc lo..<hi] body = for_loop (Suc lo) hi body"
    by (rule ext) (simp add: for_loop_def)
  then show ?thesis
    if "lo < hi" using that by (simp add: for_loop_def upt_conv_Cons)
qed

lemma for_loop_split:
  assumes "lo \<le> mid" and "mid \<le> hi"
  shows "for_loop lo hi body s = and_then (for_loop lo mid body s) (for_loop mid hi body)"
proof -
  have "[lo..<hi] = [lo..<mid] @ [mid..<hi]"
    using assms upt_add_eq_append [of lo mid "hi - mid"] by simp
  moreover have "for_each [mid..<hi] body = for_loop mid hi body"
    by (rule ext) (simp add: for_loop_def)
  ultimately show ?thesis
    by (simp add: for_loop_def for_each_append)
qed

lemma less_four: "i < N \<Longrightarrow> N \<le> 4 \<Longrightarrow> i = 0 \<or> i = 1 \<or> i = 2 \<or> i = (3::nat)"
  by arith

lemma subscript_in:
  "i < N \<Longrightarrow> N \<le> 4 \<Longrightarrow> subscript N i = Inr ([ref_x, ref_y, ref_z, ref_w] ! i)"
  by (auto simp: subscript_def nth_Cons split: nat.splits)

lemma subscript_out: "N \<le> i \<Longrightarrow> subscript N i = Inl out_of_range"
  by (auto simp: subscript_def)

lemma dimension_vec_of [simp]: "dimension (vec_of N f) = N"
  by (simp add: vec_of_def)

lemma comp_vec_of [simp]: "i < N \<Longrightarrow> N \<le> 4 \<Longrightarrow> comp (vec_of N f) i = f i"
  using less_four [of i N] by (auto simp: comp_def vec_of_def)

lemma vec_get_vec_of [simp]: "i < N \<Longrightarrow> N \<le> 4 \<Longrightarrow> vec_get (vec_of N f) i = Inr (f i)"
  using less_four [of i N] by (auto simp: vec_get_def subscript_def vec_of_def)

lemma vec_set_vec_of [simp]:
  "i < N \<Longrightarrow> N \<le> 4 \<Longrightarrow> vec_set (vec_of N f) i a = Inr (vec_of N (f(i := a)))"
  using less_four [of i N] by (auto simp: vec_set_def subscript_def vec_of_def)

lemma vec_of_cong: "(\<And>i. i < N \<Longrightarrow> f i = g i) \<Longrightarrow> vec_of N f = vec_of N g"
  by (simp add: vec_of_def)

lemma vec_default_vec_of: "vec_default N = vec_of N (\<lambda>i. 0)"
  by (simp add: vec_default_def vec_of_def)

lemma wf_vec_vec_of [simp]: "wf_vec (vec_of N f) \<longleftrightarrow> 0 < N \<and> N \<le> 4"
  by (auto simp: wf_vec_def vec_of_def comp_def)

lemma wf_vec_eq: "wf_vec v \<Longrightarrow> v = vec_of (dimension v) (comp v)"
  by (simp add: wf_vec_def)

section \<open>Evaluating the fixed-size operations\<close>

lemmas loop_eval = for_loop_def upt_conv_Cons vec_set_def vec_get_def subscript_def vec_default_def

lemma vec_ctor_4: "vec_ctor 4 [a, b, c, d] = Inr (Vec 4 a b c d)"
  by (simp add: vec_ctor_def loop_eval)

lemma vec_ctor_3: "vec_ctor 3 [a, b, c] = Inr (Vec 3 a b c 0)"
  by (simp add: vec_ctor_def loop_eval)

lemma vec_ctor_2: "vec_ctor 2 [a, b] = Inr (Vec 2 a b 0 0)"
  by (simp add: vec_ctor_def loop_eval)

lemma dot_4: "dot (Vec 4 a b c d) (Vec 4 e f g h) = Inr (a * e + b * f + c * g + d * h)"
  by (simp add: dot_def loop_eval)

lemma dot_3: "dot (Vec 3 a b c d) (Vec 3 e f g h) = Inr (a * e + b * f + c * g)"
  by (simp add: dot_def loop_eval)

lemma cross_3:
  "cross (Vec n a b c d) (Vec m e f g h) =
     Inr (Vec 3 (b * g - c * f) (c * e - a * g) (a * f - b * e) 0)"
  by (simp add: cross_def vec_ctor_3)

lemma transform_3: "transform (Vec 3 a b c d) f = Inr (Vec 3 (f a) (f b) (f c) d)"
  by (simp add: transform_def loop_eval)

lemma transform_2: "transform (Vec 2 a b c d) f = Inr (Vec 2 (f a) (f b) c d)"
  by (simp add: transform_def loop_eval)

lemma zip_transform_3:
  "zip_transform (Vec 3 a b c d) (Vec 3 a' b' c' d') f = Inr (Vec 3 (f a a') (f b b') (f c c') d)"
  by (simp add: zip_transform_def loop_eval)

lemma quat_mul_vec_value:
  "quat_mul_vec (Vec 4 a b c d) (Vec 3 e f g h) =
     Inr (Vec 3 (e + ((b * g - c * f) * d + (b * (a * f - b * e) - c * (c * e - a * g))) * 2)
                (f + ((c * e - a * g) * d + (c * (b * g - c * f) - a * (a * f - b * e))) * 2)
                (g + ((a * f - b * e) * d + (a * (c * e - a * g) - b * (b * g - c * f))) * 2) h)"
  by (simp add: quat_mul_vec_def vec_ctor_3 cross_3 scalar_mul_vec_def vec_mul_scalar_def
      vec_add_def transform_3 zip_transform_3)

text \<open>
  The squared length of the conjugated vector exceeds that of \<open>v\<close> by
  \<open>4 |imag \<times> v|\<^sup>2 (|q|\<^sup>2 - 1)\<close>.
\<close>

lemma conjugation_length:
  fixes a b c d e f g :: "'a::comm_ring_1"
  shows "(e + ((b * g - c * f) * d + (b * (a * f - b * e) - c * (c * e - a * g))) * 2)\<^sup>2
       + (f + ((c * e - a * g) * d + (c * (b * g - c * f) - a * (a * f - b * e))) * 2)\<^sup>2
       + (g + ((a * f - b * e) * d + (a * (c * e - a * g) - b * (b * g - c * f))) * 2)\<^sup>2
       = e\<^sup>2 + f\<^sup>2 + g\<^sup>2
         + 4 * ((b * g - c * f)\<^sup>2 + (c * e - a * g)\<^sup>2 + (a * f - b * e)\<^sup>2)
             * (a\<^sup>2 + b\<^sup>2 + c\<^sup>2 + d\<^sup>2 - 1)"
  by (simp add: power2_eq_square algebra_simps)

lemma mat_get_eval:
  "mat_get (Mat R cols) c r = (if c < length cols then noexcept (vec_get (cols ! c) r) else Inl undefined_behaviour)"
  by (simp add: mat_get_def mat_column_def)

lemma determinant_3x3_value:
  "determinant_3x3 (Mat 3 [Vec 3 m00 m01 m02 x, Vec 3 m10 m11 m12 y, Vec 3 m20 m21 m22 z]) =
    Inr ((m02 * m10 * m21) + (m00 * m11 * m22) + (m01 * m12 * m20)
            - (m01 * m10 * m22) - (m02 * m11 * m20) - (m00 * m12 * m21))"
  by (simp add: determinant_3x3_def mat_column_def vec_get_def subscript_def)

lemma mat_scalar_3x3: "mat_scalar 3 3 s = Inr (Mat 3 [Vec 3 s 0 0 0, Vec 3 0 s 0 0, Vec 3 0 0 s 0])"
  by (simp add: mat_scalar_def mat_default_def mat_set_def mat_column_def store_column_def eval_nat_numeral loop_eval)

lemma mat_scalar_2x2: "mat_scalar 2 2 s = Inr (Mat 2 [Vec 2 s 0 0 0, Vec 2 0 s 0 0])"
  by (simp add: mat_scalar_def mat_default_def mat_set_def mat_column_def store_column_def eval_nat_numeral loop_eval)

lemma for_each_column_2:
  "for_each_column f [c0, c1] = and_then (f c0) (\<lambda>c0'. and_then (f c1) (\<lambda>c1'. Inr [c0', c1']))"
  by (simp add: and_then_def split: sum.splits)

text \<open>What the closed-form inverse returns: the adjugate over \<open>m00 * m11 - m01 * m11\<close>.\<close>

lemma inverse_2x2_value:
  "inverse_2x2 (Mat 2 [Vec 2 m00 m01 x y, Vec 2 m10 m11 z w]) =
     Inr (Mat 2 [Vec 2 (m11 / (m00 * m11 - m01 * m11)) (- m01 / (m00 * m11 - m01 * m11)) 0 0,
                 Vec 2 (- m10 / (m00 * m11 - m01 * m11)) (m00 / (m00 * m11 - m01 * m11)) 0 0])"
  by (simp add: inverse_2x2_def mat_column_def vec_get_def subscript_def vec_ctor_2
      mat_div_scalar_def mat_ctor_def transform_2 Let_def)

lemma mat_mul_2x2:
  "mat_mul (Mat 2 [Vec 2 a b x y, Vec 2 c d z w]) (Mat 2 [Vec 2 e f x' y', Vec 2 g h z' w']) =
     Inr (Mat 2 [Vec 2 (a * e + c * f) (b * e + d * f) 0 0, Vec 2 (a * g + c * h) (b * g + d * h) 0 0])"
  by (simp add: mat_mul_def mat_default_def column_count_def mat_get_eval mat_set_def mat_column_def store_column_def
    loop_eval)

lemma norm_vec_3: "norm_vec (Vec 3 a b c d) = Inr (sqrt (a * a + b * b + c * c))"
  by (simp add: norm_vec_def norm_squared_def dot_3)

lemma vec_get_comp: "i < dimension v \<Longrightarrow> dimension v \<le> 4 \<Longrightarrow> vec_get v i = Inr (comp v i)"
  using less_four [of i "dimension v"] by (auto simp: vec_get_def subscript_def comp_def)

lemma wf_vec_3: "wf_vec v \<Longrightarrow> dimension v = 3 \<Longrightarrow> \<exists>a b c. v = Vec 3 a b c 0"
  by (cases v) (auto simp: wf_vec_def vec_of_def)

lemma wf_mat_3x3:
  assumes "wf_mat m" "row_count m = 3" "column_count m = 3"
  shows "\<exists>a b c d e f g h i. m = Mat 3 [Vec 3 a b c 0, Vec 3 d e f 0, Vec 3 g h i 0]"
proof -
  obtain R cols where m: "m = Mat R cols" by (cases m)
  from assms(3) obtain c0 c1 c2 where cols: "cols = [c0, c1, c2]"
    by (auto simp: m column_count_def length_Suc_conv eval_nat_numeral)
  from assms(1,2) have "wf_vec c0 \<and> dimension c0 = 3" "wf_vec c1 \<and> dimension c1 = 3" "wf_vec c2 \<and> dimension c2 = 3"
    by (simp_all add: m cols wf_mat_def)
  then show ?thesis
    using assms(2) wf_vec_3 [of c0] wf_vec_3 [of c1] wf_vec_3 [of c2] by (auto simp: m cols)
qed

text \<open>Rounding of integers below \<open>2\<^sup>5\<^sup>3\<close> in magnitude, and of \<open>2\<^sup>5\<^sup>3\<close> and \<open>2\<^sup>5\<^sup>3 + 1\<close>.\<close>

lemma shift_small: "a < 2 ^ 53 \<Longrightarrow> significand_shift a = 0"
  by (simp add: significand_shift.simps)

lemma round_small: "\<bar>n\<bar> < 2 ^ 53 \<Longrightarrow> round_to_nearest_even n = n"
  by (simp add: round_to_nearest_even_def shift_small nat_less_iff Let_def) (simp add: sgn_if)

lemma shift_54: "2 ^ 53 \<le> a \<Longrightarrow> a < 2 ^ 54 \<Longrightarrow> significand_shift a = 1"
  using significand_shift.simps [of a] significand_shift.simps [of "a div 2"] by simp

lemma round_2_53: "round_to_nearest_even 9007199254740992 = 9007199254740992"
  by (simp add: round_to_nearest_even_def shift_54 Let_def)

lemma round_2_53_1: "round_to_nearest_even 9007199254740993 = 9007199254740992"
  by (simp add: round_to_nearest_even_def shift_54 Let_def)

section \<open>Loops over well-formed matrices\<close>

text \<open>A loop whose state after \<open>i\<close> rounds is \<open>G i\<close> ends in \<open>G hi\<close>.\<close>

lemma for_loop_fun:
  assumes "\<And>i. lo \<le> i \<Longrightarrow> i < hi \<Longrightarrow> body i (G i) = Inr (G (Suc i))" and "lo \<le> hi"
  shows "for_loop lo hi body (G lo) = Inr (G hi)"
  using assms(2,1)
proof (induction hi rule: dec_induct)
  case base
  show ?case by simp
next
  case (step n)
  then show ?case by (simp add: for_loop_Suc)
qed

lemma row_count_mat_of [simp]: "row_count (mat_of R C f) = R"
  by (simp add: mat_of_def)

lemma column_count_mat_of [simp]: "column_count (mat_of R C f) = C"
  by (simp add: mat_of_def column_count_def)

lemma mat_column_mat_of [simp]: "c < C \<Longrightarrow> mat_column (mat_of R C f) c = Inr (vec_of R (f c))"
  by (simp add: mat_column_def mat_of_def)

lemma store_column_mat_of [simp]:
  "c < C \<Longrightarrow> store_column (mat_of R C f) c (vec_of R g) = mat_of R C (f(c := g))"
  by (auto simp: store_column_def mat_of_def nth_list_update intro!: nth_equalityI)

lemma mat_get_mat_of [simp]:
  "c < C \<Longrightarrow> r < R \<Longrightarrow> R \<le> 4 \<Longrightarrow> mat_get (mat_of R C f) c r = Inr (f c r)"
  by (simp add: mat_get_def)

lemma mat_set_mat_of [simp]:
  "c < C \<Longrightarrow> r < R \<Longrightarrow> R \<le> 4 \<Longrightarrow>
   mat_set (mat_of R C f) c r a = Inr (mat_of R C (f(c := (f c)(r := a))))"
  by (simp add: mat_set_def)

lemma mat_of_cong:
  "(\<And>c r. c < C \<Longrightarrow> r < R \<Longrightarrow> f c r = g c r) \<Longrightarrow> mat_of R C f = mat_of R C g"
  by (auto simp: mat_of_def intro!: vec_of_cong)

lemma mat_default_mat_of: "mat_default R C = mat_of R C (\<lambda>c r. 0)"
  by (auto simp: mat_default_def mat_of_def vec_default_vec_of intro!: nth_equalityI)

lemma entry_mat_of [simp]: "c < C \<Longrightarrow> r < R \<Longrightarrow> R \<le> 4 \<Longrightarrow> entry (mat_of R C f) c r = f c r"
  by (simp add: entry_def mat_of_def)

lemma wf_mat_mat_of [simp]: "wf_mat (mat_of R C f) \<longleftrightarrow> 0 < C \<and> 0 < R \<and> R \<le> 4"
  by (auto simp: wf_mat_def mat_of_def column_count_def list_all_iff)

lemma wf_mat_eq:
  assumes "wf_mat m"
  shows "m = mat_of (row_count m) (column_count m) (entry m)"
proof -
  obtain R cols where m: "m = Mat R cols" by (cases m)
  have "cols = map (\<lambda>c. vec_of R (entry m c)) [0..<length cols]"
  proof (rule nth_equalityI)
    fix c assume c: "c < length cols"
    with assms have "wf_vec (cols ! c)" "dimension (cols ! c) = R"
      by (auto simp: wf_mat_def m list_all_length)
    then show "cols ! c = map (\<lambda>c. vec_of R (entry m c)) [0..<length cols] ! c"
      using c wf_vec_eq [of "cols ! c"] by (simp add: entry_def [abs_def] m) 
  qed simp
  then show ?thesis
    by (simp add: m mat_of_def column_count_def)
qed

lemma mat_get_entry:
  assumes "wf_mat m" and "c < column_count m" and "r < row_count m"
  shows "mat_get m c r = Inr (entry m c r)"
proof -
  from assms(1) have "row_count m \<le> 4" by (simp add: wf_mat_def)
  with assms(2,3) have "mat_get (mat_of (row_count m) (column_count m) (entry m)) c r = Inr (entry m c r)"
    by simp
  with wf_mat_eq [OF assms(1)] show ?thesis by simp
qed

text \<open>The scalar constructor: its loop up to round \<open>n\<close>, and its result for \<open>C \<le> R\<close>.\<close>

lemma mat_scalar_loop:
  assumes "n \<le> C" and "n \<le> R" and "R \<le> 4"
  shows "for_loop 0 n (\<lambda>i m. mat_set m i i s) (mat_default R C) =
           Inr (mat_of R C (\<lambda>c r. if c = r \<and> c < n then s else 0))"
proof -
  let ?G = "\<lambda>i. mat_of R C (\<lambda>c r. if c = r \<and> c < i then s else 0)"
  have "for_loop 0 n (\<lambda>i m. mat_set m i i s) (?G 0) = Inr (?G n)"
  proof (rule for_loop_fun)
    fix i assume "i < n"
    with assms show "mat_set (?G i) i i s = Inr (?G (Suc i))"
      by (auto intro!: mat_of_cong)
  qed simp
  then show ?thesis
    by (simp add: mat_default_mat_of)
qed

lemma mat_scalar_mat_of:
  assumes "C \<le> R" and "R \<le> 4"
  shows "mat_scalar R C s = Inr (mat_of R C (\<lambda>c r. if c = r then s else 0))"
proof -
  have "mat_of R C (\<lambda>c r. if c = r \<and> c < C then s else 0) = mat_of R C (\<lambda>c r. if c = r then s else 0)"
    by (rule mat_of_cong) simp
  with mat_scalar_loop [of C C R s] assms show ?thesis
    by (simp add: mat_scalar_def)
qed

lemma transpose_mat_of:
  assumes "0 < R" "R \<le> 4" "C \<le> 4"
  shows "transpose (mat_of R C f) = Inr (mat_of C R (\<lambda>c r. f r c))"
proof -
  let ?m = "mat_of R C f"
  let ?inner = "\<lambda>i j t. and_then (mat_get ?m i j) (\<lambda>a. mat_set t j i a)"
  let ?H = "\<lambda>i j. mat_of C R (\<lambda>c r. if r < i \<or> (r = i \<and> c < j) then f r c else 0)"
  have inner: "for_loop 0 R (?inner i) (?H i 0) = Inr (?H i R)" if "i < C" for i
  proof (rule for_loop_fun)
    fix j assume "j < R"
    with that assms show "?inner i j (?H i j) = Inr (?H i (Suc j))"
      by (auto intro!: mat_of_cong)
  qed simp
  have "for_loop 0 C (\<lambda>i. for_loop 0 R (?inner i)) (?H 0 0) = Inr (?H C 0)"
  proof (rule for_loop_fun)
    fix i assume i: "i < C"
    have "?H i R = ?H (Suc i) 0"
      by (rule mat_of_cong) auto
    with inner [OF i] show "for_loop 0 R (?inner i) (?H i 0) = Inr (?H (Suc i) 0)"
      by simp
  qed simp
  moreover have "?H 0 0 = mat_default C R"
    by (simp add: mat_default_mat_of)
  moreover have "?H C 0 = mat_of C R (\<lambda>c r. f r c)"
    by (rule mat_of_cong) simp
  ultimately show ?thesis
    by (simp add: transpose_def)
qed

lemma mat_mul_mat_of:
  fixes f g :: "nat \<Rightarrow> nat \<Rightarrow> 'a::semiring_0"
  assumes "N \<le> 4" and "M \<le> 4"
  shows "mat_mul (mat_of N M f) (mat_of M K g) =
           Inr (mat_of N K (\<lambda>j i. \<Sum>k<M. f k i * g j k))"
proof -
  let ?lhs = "mat_of N M f" and ?rhs = "mat_of M K g"
  let ?S = "\<lambda>n j i. \<Sum>k<n. f k i * g j k"
  let ?body = "\<lambda>i j k p. and_then (mat_get ?lhs k i) (\<lambda>a.
                 and_then (mat_get ?rhs j k) (\<lambda>b.
                 and_then (mat_get p j i) (\<lambda>c. mat_set p j i (c + a * b))))"
  let ?P = "\<lambda>i j k. mat_of N K (\<lambda>c r.
              if r < i \<or> (r = i \<and> c < j) then ?S M c r
              else if r = i \<and> c = j then ?S k c r else 0)"
  have inner: "for_loop 0 M (?body i j) (?P i j 0) = Inr (?P i j M)" if "i < N" "j < K" for i j
  proof (rule for_loop_fun)
    fix k assume "k < M"
    with that assms show "?body i j k (?P i j k) = Inr (?P i j (Suc k))"
      by (auto intro!: mat_of_cong)
  qed simp
  have middle: "for_loop 0 K (\<lambda>j. for_loop 0 M (?body i j)) (?P i 0 0) = Inr (?P i K 0)"
    if i: "i < N" for i
  proof (rule for_loop_fun)
    fix j assume j: "j < K"
    have "?P i j M = ?P i (Suc j) 0"
      by (rule mat_of_cong) auto
    with inner [OF i j] show "for_loop 0 M (?body i j) (?P i j 0) = Inr (?P i (Suc j) 0)"
      by simp
  qed simp
  have "for_loop 0 N (\<lambda>i. for_loop 0 K (\<lambda>j. for_loop 0 M (?body i j))) (?P 0 0 0) = Inr (?P N 0 0)"
  proof (rule for_loop_fun)
    fix i assume i: "i < N"
    have "?P i K 0 = ?P (Suc i) 0 0"
      by (rule mat_of_cong) auto
    with middle [OF i]
    show "for_loop 0 K (\<lambda>j. for_loop 0 M (?body i j)) (?P i 0 0) = Inr (?P (Suc i) 0 0)"
      by simp
  qed simp
  moreover have "?P 0 0 0 = mat_default N K"
    unfolding mat_default_mat_of by (rule mat_of_cong) simp
  moreover have "?P N 0 0 = mat_of N K (?S M)"
    by (rule mat_of_cong) simp
  ultimately show ?thesis
    by (simp add: mat_mul_def)
qed

lemma mat_mul_vec_mat_of:
  fixes f :: "nat \<Rightarrow> nat \<Rightarrow> 'a::semiring_0"
  assumes "N \<le> 4" and "M \<le> 4"
  shows "mat_mul_vec (mat_of N M f) (vec_of M g) = Inr (vec_of N (\<lambda>i. \<Sum>k<M. f k i * g k))"
proof -
  let ?m = "mat_of N M f" and ?v = "vec_of M g"
  let ?body = "\<lambda>i k p. and_then (mat_get ?m k i) (\<lambda>a.
                 and_then (vec_get ?v k) (\<lambda>b.
                 and_then (vec_get p i) (\<lambda>c. vec_set p i (c + a * b))))"
  let ?P = "\<lambda>i k. vec_of N (\<lambda>r. if r < i then \<Sum>k<M. f k r * g k
                                 else if r = i then \<Sum>k<k. f k r * g k else 0)"
  have inner: "for_loop 0 M (?body i) (?P i 0) = Inr (?P i M)" if "i < N" for i
  proof (rule for_loop_fun)
    fix k assume "k < M"
    with that assms show "?body i k (?P i k) = Inr (?P i (Suc k))"
      by (auto intro!: vec_of_cong)
  qed simp
  have "for_loop 0 N (\<lambda>i. for_loop 0 M (?body i)) (?P 0 0) = Inr (?P N 0)"
  proof (rule for_loop_fun)
    fix i assume i: "i < N"
    have "?P i M = ?P (Suc i) 0"
      by (rule vec_of_cong) auto
    with inner [OF i] show "for_loop 0 M (?body i) (?P i 0) = Inr (?P (Suc i) 0)"
      by simp
  qed simp
  moreover have "?P 0 0 = vec_default N"
    unfolding vec_default_vec_of by (rule vec_of_cong) simp
  moreover have "?P N 0 = vec_of N (\<lambda>i. \<Sum>k<M. f k i * g k)"
    by (rule vec_of_cong) simp
  ultimately show ?thesis
    by (simp add: mat_mul_vec_def)
qed

lemma translation_mat_of:
  fixes v :: "'a::zero_neq_one vec"
  assumes "dimension v = N" and "N \<le> 3"
  shows "translation v =
           Inr (mat_of (N + 1) (N + 1) (\<lambda>c r. if c = N \<and> r < N then comp v r else if c = r then 1 else 0))"
proof -
  let ?body = "\<lambda>i t. and_then (vec_get v i) (\<lambda>a.
                   and_then (noexcept (mat_column t N)) (\<lambda>col.
                   and_then (vec_set col i a) (\<lambda>col'.
                   Inr (store_column t N col'))))"
  let ?T = "\<lambda>i. mat_of (N + 1) (N + 1)
              (\<lambda>c r. if c = N \<and> r < i then comp v r else if c = r then 1 else 0)"
  have "for_loop 0 N ?body (?T 0) = Inr (?T N)"
  proof (rule for_loop_fun)
    fix i assume "i < N"
    with assms show "?body i (?T i) = Inr (?T (Suc i))"
      by (auto simp: vec_get_comp intro!: mat_of_cong)
  qed simp
  moreover have "mat_scalar (N + 1) (N + 1) (1::'a) = Inr (?T 0)"
    using assms(2) by (simp add: mat_scalar_mat_of)
  ultimately show ?thesis
    by (simp add: translation_def assms(1))
qed

text \<open>On well-formed values the program's \<open>operator==\<close> holds of a value and itself.\<close>

lemma equal_range_all:
  "(\<And>i. i \<in> set is \<Longrightarrow> same i = Inr True) \<Longrightarrow> equal_range is same = Inr True"
  by (induction "is") simp_all

lemma vec_eq_refl:
  assumes "dimension v \<le> 4"
  shows "vec_eq v v = Inr True"
proof -
  have "equal_range [0..<dimension v]
      (\<lambda>i. and_then (vec_get v i) (\<lambda>a. and_then (vec_get v i) (\<lambda>b. Inr (a = b)))) = Inr True"
    using assms by (intro equal_range_all) (simp add: vec_get_comp)
  then show ?thesis
    by (simp add: vec_eq_def)
qed

lemma columns_equal_refl:
  "(\<And>col. col \<in> set cols \<Longrightarrow> dimension col \<le> 4) \<Longrightarrow> columns_equal cols cols = Inr True"
  by (induction cols) (simp_all add: vec_eq_refl)

lemma mat_eq_refl: "wf_mat m \<Longrightarrow> mat_eq m m = Inr True"
  by (simp add: mat_eq_def wf_mat_def list_all_iff columns_equal_refl)

lemma vec_eq_2:
  "vec_eq (Vec 2 a b x y) (Vec 2 c d z w) = Inr (a = c \<and> b = d)"
  by (simp add: vec_eq_def loop_eval)

section \<open>Properties of the specification\<close>

text \<open>
  C1. For a \<open>2 \<times> 2\<close> matrix with nonzero determinant \<open>m00 * m11 - m01 * m10\<close>,
  \<open>inverse(m) * m\<close> should be the identity. The source divides the adjugate by
  \<open>m00 * m11 - m01 * m11\<close> instead (see \<open>inverse_2x2_value\<close>). At the matrix with columns
  \<open>(3, 1)\<close> and \<open>(0, 1)\<close>, whose determinant is \<open>3\<close>, the function returns the columns
  \<open>(1/2, -1/2)\<close> and \<open>(0, 3/2)\<close>, and the product with the matrix is \<open>3/2\<close> times the
  identity, which \<open>operator==\<close> tells from the identity.
\<close>

theorem inverse_2x2_not_inverse:
  "determinant_2x2 (Mat 2 [Vec 2 3 1 0 0, Vec 2 0 1 0 0] :: real mat) = Inr 3 \<and>
   inverse_2x2 (Mat 2 [Vec 2 3 1 0 0, Vec 2 0 1 0 0] :: real mat) =
     Inr (Mat 2 [Vec 2 (1 / 2) (- 1 / 2) 0 0, Vec 2 0 (3 / 2) 0 0]) \<and>
   and_then (inverse_2x2 (Mat 2 [Vec 2 3 1 0 0, Vec 2 0 1 0 0] :: real mat))
     (\<lambda>inv. mat_mul inv (Mat 2 [Vec 2 3 1 0 0, Vec 2 0 1 0 0])) =
     Inr (Mat 2 [Vec 2 (3 / 2) 0 0 0, Vec 2 0 (3 / 2) 0 0]) \<and>
   mat_scalar 2 2 (1::real) = Inr (Mat 2 [Vec 2 1 0 0 0, Vec 2 0 1 0 0]) \<and>
   mat_eq (Mat 2 [Vec 2 (3 / 2) 0 0 0, Vec 2 0 (3 / 2) 0 0] :: real mat)
     (Mat 2 [Vec 2 1 0 0 0, Vec 2 0 1 0 0]) = Inr False"
  by (simp add: inverse_2x2_value mat_mul_2x2 mat_scalar_2x2 determinant_2x2_def
      mat_column_def vec_get_def subscript_def mat_eq_def vec_eq_2)

text \<open>
  C2. For a vector of dimension \<open>N\<close> with \<open>1 \<le> N \<le> 4\<close> and an index \<open>i\<close>: when
  \<open>i < N\<close> the subscript operator returns the reference to the \<open>i\<close>-th named member,
  and after \<open>v[i] = a\<close> a read at \<open>i\<close> gives \<open>a\<close> while the dimension and the other
  components are as before; when \<open>N \<le> i\<close> it throws \<open>std::out_of_range\<close> and the vector
  is unchanged.
\<close>

theorem subscript_round_trip:
  assumes "1 \<le> dimension v" and "dimension v \<le> 4"
  shows "(i < dimension v \<longrightarrow>
            subscript (dimension v) i = Inr ([ref_x, ref_y, ref_z, ref_w] ! i) \<and>
            (\<exists>v'. subscript_assign v i a = (None, v') \<and> dimension v' = dimension v \<and>
                  vec_get v' i = Inr a \<and> (\<forall>j. j \<noteq> i \<longrightarrow> vec_get v' j = vec_get v j))) \<and>
         (dimension v \<le> i \<longrightarrow>
            subscript (dimension v) i = Inl out_of_range \<and> vec_get v i = Inl out_of_range \<and>
            subscript_assign v i a = (Some out_of_range, v))"
proof (intro conjI impI)
  assume i: "i < dimension v"
  obtain n b c d e where v: "v = Vec n b c d e" by (cases v)
  from i assms(2) show "subscript (dimension v) i = Inr ([ref_x, ref_y, ref_z, ref_w] ! i)"
    by (rule subscript_in)
  from i assms(2) have "i = 0 \<or> i = 1 \<or> i = 2 \<or> i = 3"
    by (rule less_four)
  then show "\<exists>v'. subscript_assign v i a = (None, v') \<and> dimension v' = dimension v \<and>
                  vec_get v' i = Inr a \<and> (\<forall>j. j \<noteq> i \<longrightarrow> vec_get v' j = vec_get v j)"
    using i by (auto simp: v subscript_assign_def subscript_def vec_get_def)
next
  assume "dimension v \<le> i"
  then show "subscript (dimension v) i = Inl out_of_range"
    by (rule subscript_out)
  then show "vec_get v i = Inl out_of_range" "subscript_assign v i a = (Some out_of_range, v)"
    by (simp_all add: vec_get_def subscript_assign_def)
qed

theorem subscript_round_trip_witness:
  "subscript 2 1 = Inr ref_y \<and>
   subscript_assign (Vec 2 5 7 0 0 :: int vec) 1 9 = (None, Vec 2 5 9 0 0) \<and>
   vec_get (Vec 2 5 9 0 0 :: int vec) 1 = Inr 9 \<and>
   vec_get (Vec 2 5 9 0 0 :: int vec) 0 = Inr 5 \<and>
   subscript 2 2 = Inl out_of_range \<and>
   subscript_assign (Vec 2 5 7 0 0 :: int vec) 2 9 = (Some out_of_range, Vec 2 5 7 0 0)"
  using subscript_round_trip [of "Vec 2 5 7 0 0 :: int vec" 1 9]
    subscript_round_trip [of "Vec 2 5 7 0 0 :: int vec" 2 9]
  by (simp add: subscript_assign_def subscript_def vec_get_def)

text \<open>
  C3. \<open>translation((1, 2, 3)) * (0, 0, 0, 1)\<close> is \<open>(1, 2, 3, 1)\<close>; and for a vector \<open>v\<close>
  of dimension \<open>N \<le> 3\<close> (the result has \<open>N + 1 \<le> 4\<close> rows), \<open>translation(v)\<close> is the
  \<open>(N + 1) \<times> (N + 1)\<close> identity with \<open>v\<close> in the leading \<open>N\<close> rows of the last column.
\<close>

theorem translation_matrix:
  fixes v :: "'a::semiring_1 vec"
  assumes "0 < dimension v" and "dimension v \<le> 3"
  shows "and_then (translation (Vec 3 1 2 3 0 :: 'a vec)) (\<lambda>t. mat_mul_vec t (Vec 4 0 0 0 1)) =
           Inr (Vec 4 1 2 3 1) \<and>
         (\<exists>t. translation v = Inr t \<and> wf_mat t \<and>
            row_count t = dimension v + 1 \<and> column_count t = dimension v + 1 \<and>
            (\<forall>r<dimension v. mat_get t (dimension v) r = vec_get v r) \<and>
            mat_get t (dimension v) (dimension v) = Inr 1 \<and>
            (\<forall>c<dimension v. \<forall>r\<le>dimension v. mat_get t c r = Inr (if c = r then 1 else 0)))"
proof
  let ?u = "Vec 3 1 2 3 0 :: 'a vec"
  have "Vec 4 0 0 0 1 = vec_of 4 (\<lambda>k. if k = 3 then 1 else (0::'a))"
    by (simp add: vec_of_def)
  moreover have "translation ?u =
      Inr (mat_of 4 4 (\<lambda>c r. if c = 3 \<and> r < 3 then comp ?u r else if c = r then 1 else 0))"
    using translation_mat_of [of ?u 3] by simp
  ultimately show "and_then (translation ?u) (\<lambda>t. mat_mul_vec t (Vec 4 0 0 0 1)) = Inr (Vec 4 1 2 3 1)"
    by (simp add: mat_mul_vec_mat_of) (simp add: vec_of_def comp_def eval_nat_numeral)
next
  let ?N = "dimension v"
  let ?t = "mat_of (?N + 1) (?N + 1) (\<lambda>c r. if c = ?N \<and> r < ?N then comp v r else if c = r then 1 else 0)"
  have "translation v = Inr ?t"
    using assms(2) by (simp add: translation_mat_of)
  moreover have "\<forall>r<?N. mat_get ?t ?N r = vec_get v r"
    using assms(2) by (simp add: vec_get_comp)
  moreover have "mat_get ?t ?N ?N = Inr 1"
    using assms(2) by simp
  moreover have "\<forall>c<?N. \<forall>r\<le>?N. mat_get ?t c r = Inr (if c = r then 1 else 0)"
    using assms(2) by simp
  ultimately show "\<exists>t. translation v = Inr t \<and> wf_mat t \<and>
            row_count t = ?N + 1 \<and> column_count t = ?N + 1 \<and>
            (\<forall>r<?N. mat_get t ?N r = vec_get v r) \<and>
            mat_get t ?N ?N = Inr 1 \<and>
            (\<forall>c<?N. \<forall>r\<le>?N. mat_get t c r = Inr (if c = r then 1 else 0))"
    using assms(2) by simp
qed

theorem translation_matrix_witness:
  "translation (Vec 2 5 7 0 0 :: int vec) =
     Inr (Mat 3 [Vec 3 1 0 0 0, Vec 3 0 1 0 0, Vec 3 5 7 1 0]) \<and>
   and_then (translation (Vec 3 1 2 3 0 :: int vec)) (\<lambda>t. mat_mul_vec t (Vec 4 0 0 0 1)) =
     Inr (Vec 4 1 2 3 1)"
  using translation_matrix [of "Vec 2 5 7 0 0 :: int vec"]
  by (simp add: translation_mat_of mat_of_def vec_of_def comp_def upt_conv_Cons)

text \<open>
  C4. For matrices \<open>lhs\<close> (\<open>N\<close> rows, \<open>M\<close> columns) and \<open>rhs\<close> (\<open>M\<close> rows, \<open>K\<close> columns)
  the product is the matrix with \<open>N\<close> rows and \<open>K\<close> columns whose element in column \<open>j\<close>
  and row \<open>i\<close> is the sum over \<open>k < M\<close> of \<open>lhs[k, i] * rhs[j, k]\<close>, and \<open>lhs *= rhs\<close>
  leaves that product in \<open>lhs\<close> (the operator is instantiable for square matrices of one
  size). The elements read are \<open>entry lhs k i\<close> and \<open>entry rhs j k\<close>, the values of
  \<open>mat_get\<close> by \<open>mat_get_entry\<close>.
\<close>

theorem mat_mul_entries:
  fixes lhs rhs :: "'a::semiring_0 mat"
  assumes "wf_mat lhs" and "wf_mat rhs" and "column_count lhs = row_count rhs"
  shows "\<exists>p. mat_mul lhs rhs = Inr p \<and> wf_mat p \<and>
           row_count p = row_count lhs \<and> column_count p = column_count rhs \<and>
           (\<forall>j<column_count rhs. \<forall>i<row_count lhs.
              mat_get p j i = Inr (\<Sum>k<column_count lhs. entry lhs k i * entry rhs j k)) \<and>
           mat_mul_assign lhs rhs = Inr p"
proof -
  let ?N = "row_count lhs" and ?M = "column_count lhs" and ?K = "column_count rhs"
  from assms have N: "0 < ?N" "?N \<le> 4" and M: "?M \<le> 4" and K: "0 < ?K"
    by (simp_all add: wf_mat_def)
  have lhs: "lhs = mat_of ?N ?M (entry lhs)"
    using assms(1) by (rule wf_mat_eq)
  have rhs: "rhs = mat_of ?M ?K (entry rhs)"
    using wf_mat_eq [OF assms(2)] assms(3) by simp
  let ?p = "mat_of ?N ?K (\<lambda>j i. \<Sum>k<?M. entry lhs k i * entry rhs j k)"
  have "mat_mul lhs rhs = Inr ?p"
    using mat_mul_mat_of [OF N(2) M, of "entry lhs" ?K "entry rhs"] lhs rhs by simp
  then show ?thesis
    using N K by (simp add: mat_mul_assign_def)
qed

theorem mat_mul_entries_witness:
  "wf_mat (Mat 2 [Vec 2 1 0 0 0, Vec 2 1 1 0 0] :: int mat) \<and>
   wf_mat (Mat 2 [Vec 2 1 1 0 0, Vec 2 0 1 0 0] :: int mat) \<and>
   mat_mul (Mat 2 [Vec 2 1 0 0 0, Vec 2 1 1 0 0] :: int mat) (Mat 2 [Vec 2 1 1 0 0, Vec 2 0 1 0 0]) =
     Inr (Mat 2 [Vec 2 2 1 0 0, Vec 2 1 1 0 0]) \<and>
   mat_mul_assign (Mat 2 [Vec 2 1 0 0 0, Vec 2 1 1 0 0] :: int mat) (Mat 2 [Vec 2 1 1 0 0, Vec 2 0 1 0 0]) =
     Inr (Mat 2 [Vec 2 2 1 0 0, Vec 2 1 1 0 0])"
  using mat_mul_entries [of "Mat 2 [Vec 2 1 0 0 0, Vec 2 1 1 0 0] :: int mat" "Mat 2 [Vec 2 1 1 0 0, Vec 2 0 1 0 0]"]
  by (simp add: wf_mat_def wf_vec_def vec_of_def comp_def column_count_def mat_mul_2x2 mat_mul_assign_def)

text \<open>
  C5. Constructing a matrix with \<open>R\<close> rows and \<open>C\<close> columns from a scalar should set
  the main diagonal to the scalar and leave the rest zero. The loop runs over all \<open>C\<close>
  columns and writes \<open>(*this)[i, i]\<close>; with more columns than rows the row index leaves
  the column vector's range, the vector's subscript throws, and the exception ends in
  \<open>std::terminate\<close> inside the \<open>noexcept\<close> operator. For \<open>mat<2, 3, T>\<close> no matrix is
  constructed. (For \<open>C \<le> R\<close> the diagonal matrix is built: \<open>mat_scalar_mat_of\<close>.)
\<close>

theorem mat_scalar_more_columns_than_rows:
  "mat_scalar 2 3 s = Inl terminate"
  by (simp add: mat_scalar_def mat_default_def mat_set_def mat_column_def store_column_def loop_eval)

text \<open>
  C6. On exact reals, with the machine epsilon (not negative) and \<open>atan2\<close> as
  parameters: the
  imaginary part \<open>(x, y, z)\<close> of \<open>q\<close> has norm \<open>n = sqrt (x * x + y * y + z * z)\<close>; when
  \<open>n \<le> epsilon\<close>, \<open>axis_angle\<close> returns the value-initialised pair (the zero vector and
  the angle \<open>0\<close>); otherwise \<open>n\<close> is positive and it returns the imaginary part divided
  by \<open>n\<close> and the angle \<open>2 * atan2 n w\<close>.
\<close>

theorem axis_angle_cases:
  assumes "0 \<le> epsilon"
  shows "\<exists>imag n. vec_ctor 3 [vec_x q, vec_y q, vec_z q] = Inr imag \<and> norm_vec imag = Inr n \<and>
     n = sqrt (vec_x q * vec_x q + vec_y q * vec_y q + vec_z q * vec_z q) \<and>
     (n \<le> epsilon \<longrightarrow> axis_angle epsilon atan2 q = Inr (vec_default 3, 0)) \<and>
     (\<not> n \<le> epsilon \<longrightarrow> 0 < n \<and>
        vec_div_scalar imag n = Inr (Vec 3 (vec_x q / n) (vec_y q / n) (vec_z q / n) 0) \<and>
        axis_angle epsilon atan2 q =
          Inr (Vec 3 (vec_x q / n) (vec_y q / n) (vec_z q / n) 0, 2 * atan2 n (vec_w q)))"
  using assms
  by (simp add: axis_angle_def vec_ctor_3 norm_vec_3 vec_div_scalar_def transform_3)

theorem axis_angle_cases_witness:
  "(0::real) \<le> 1 / 1000 \<and>
   axis_angle (1 / 1000) (\<lambda>y x. if x = 0 then pi / 2 else arctan (y / x)) (Vec 4 0 0 0 1) = Inr (Vec 3 0 0 0 0, 0) \<and>
   axis_angle (1 / 1000) (\<lambda>y x. if x = 0 then pi / 2 else arctan (y / x)) (Vec 4 1 0 0 0) = Inr (Vec 3 1 0 0 0, pi)"
  using axis_angle_cases [where epsilon = "1 / 1000" and q = "Vec 4 0 0 0 1"
        and ?atan2.0 = "\<lambda>y x. if x = 0 then pi / 2 else arctan (y / x)"]
    axis_angle_cases [where epsilon = "1 / 1000" and q = "Vec 4 1 0 0 0"
        and ?atan2.0 = "\<lambda>y x. if x = 0 then pi / 2 else arctan (y / x)"]
  by (auto simp: vec_default_def)

text \<open>
  C7. For quaternions \<open>p\<close> and \<open>q\<close> the Hamilton product \<open>p * q\<close> is returned, and over
  exact arithmetic (a commutative ring) its squared norm is the product of the squared
  norms of \<open>p\<close> and \<open>q\<close>; so the product of two quaternions of unit norm has unit norm.
\<close>

theorem quat_mul_norm_squared:
  fixes p q :: "'a::comm_ring_1 quat"
  assumes "dimension p = 4" and "dimension q = 4"
  shows "\<exists>r a b. quat_mul p q = Inr r \<and> dimension r = 4 \<and>
           norm_squared p = Inr a \<and> norm_squared q = Inr b \<and>
           norm_squared r = Inr (a * b) \<and>
           (a = 1 \<and> b = 1 \<longrightarrow> norm_squared r = Inr 1)"
proof -
  obtain a b c d where p: "p = Vec 4 a b c d"
    using assms(1) by (cases p) simp
  obtain e f g h where q: "q = Vec 4 e f g h"
    using assms(2) by (cases q) simp
  have product: "quat_mul (Vec 4 a b c d) (Vec 4 e f g h) = Inr (Vec 4
      (d * e + a * h + b * g - c * f) (d * f - a * g + b * h + c * e)
      (d * g + a * f - b * e + c * h) (d * h - a * e - b * f - c * g))"
    by (simp add: quat_mul_def quat_def vec_ctor_4)
  have four_squares:
    "(d * e + a * h + b * g - c * f) * (d * e + a * h + b * g - c * f)
     + (d * f - a * g + b * h + c * e) * (d * f - a * g + b * h + c * e)
     + (d * g + a * f - b * e + c * h) * (d * g + a * f - b * e + c * h)
     + (d * h - a * e - b * f - c * g) * (d * h - a * e - b * f - c * g)
     = (a * a + b * b + c * c + d * d) * (e * e + f * f + g * g + h * h)"
    by (simp add: algebra_simps)
  show ?thesis
    using four_squares by (simp add: product p q norm_squared_def dot_4)
qed

theorem quat_mul_norm_squared_witness:
  "dimension (Vec 4 0 1 0 0 :: int quat) = 4 \<and> dimension (Vec 4 0 0 1 0 :: int quat) = 4 \<and>
   norm_squared (Vec 4 0 1 0 0 :: int quat) = Inr 1 \<and>
   norm_squared (Vec 4 0 0 1 0 :: int quat) = Inr 1 \<and>
   quat_mul (Vec 4 0 1 0 0 :: int quat) (Vec 4 0 0 1 0) = Inr (Vec 4 1 0 0 0) \<and>
   norm_squared (Vec 4 1 0 0 0 :: int quat) = Inr 1"
  using quat_mul_norm_squared [of "Vec 4 0 1 0 0 :: int quat" "Vec 4 0 0 1 0"]
  by (simp add: norm_squared_def dot_4 quat_mul_def quat_def vec_ctor_4)

text \<open>
  C8. The determinant of the \<open>3 \<times> 3\<close> identity (the matrix constructed from the scalar
  \<open>1\<close>) is \<open>1\<close>, in exact arithmetic and in \<open>double\<close>; and over exact arithmetic (the
  element type a commutative ring) the determinant of a \<open>3 \<times> 3\<close> matrix whose rows
  \<open>r1 \<noteq> r2\<close> are equal is \<open>0\<close>.
\<close>

theorem determinant_3x3_identity_and_equal_rows:
  fixes m :: "'a::comm_ring_1 mat"
  assumes "wf_mat m" and "row_count m = 3" and "column_count m = 3"
    and "r1 < 3" and "r2 < 3" and "r1 \<noteq> r2"
    and "\<forall>c<3. mat_get m c r1 = mat_get m c r2"
  shows "and_then (mat_scalar 3 3 1) determinant_3x3 = Inr (1::'a) \<and>
         and_then (mat_scalar 3 3 1) determinant_3x3 = Inr (1::double) \<and>
         determinant_3x3 m = Inr 0"
proof (intro conjI)
  show "and_then (mat_scalar 3 3 1) determinant_3x3 = Inr (1::'a)"
    by (simp add: mat_scalar_3x3 determinant_3x3_value)
  show "and_then (mat_scalar 3 3 1) determinant_3x3 = Inr (1::double)"
    by (simp add: mat_scalar_3x3 determinant_3x3_value zero_double_def one_double_def
        plus_double_def minus_double_def times_double_def round_small)
  from assms(1-3) obtain a b c d e f g h i
    where m: "m = Mat 3 [Vec 3 a b c 0, Vec 3 d e f 0, Vec 3 g h i 0]"
    using wf_mat_3x3 by blast
  from assms(7) have rows: "mat_get m 0 r1 = mat_get m 0 r2" "mat_get m 1 r1 = mat_get m 1 r2"
      "mat_get m 2 r1 = mat_get m 2 r2"
    by simp_all
  have "r1 = 0 \<or> r1 = 1 \<or> r1 = 2" "r2 = 0 \<or> r2 = 1 \<or> r2 = 2"
    using assms(4,5) by arith+
  then show "determinant_3x3 m = Inr 0"
    using rows assms(6) unfolding m determinant_3x3_value
    by (auto simp: mat_get_eval vec_get_def subscript_def algebra_simps)
qed

theorem determinant_3x3_witness:
  "wf_mat (Mat 3 [Vec 3 1 1 2 0, Vec 3 3 3 4 0, Vec 3 5 5 6 0] :: int mat) \<and>
   mat_get (Mat 3 [Vec 3 1 1 2 0, Vec 3 3 3 4 0, Vec 3 5 5 6 0] :: int mat) 2 0 = Inr 5 \<and>
   mat_get (Mat 3 [Vec 3 1 1 2 0, Vec 3 3 3 4 0, Vec 3 5 5 6 0] :: int mat) 2 1 = Inr 5 \<and>
   determinant_3x3 (Mat 3 [Vec 3 1 1 2 0, Vec 3 3 3 4 0, Vec 3 5 5 6 0] :: int mat) = Inr 0 \<and>
   and_then (mat_scalar 3 3 1) determinant_3x3 = Inr (1::int)"
  using determinant_3x3_identity_and_equal_rows
    [of "Mat 3 [Vec 3 1 1 2 0, Vec 3 3 3 4 0, Vec 3 5 5 6 0] :: int mat" 0 1]
  by (simp add: wf_mat_def wf_vec_def vec_of_def comp_def column_count_def mat_get_eval
      vec_get_def subscript_def eval_nat_numeral All_less_Suc)

text \<open>
  With \<open>T = double\<close> the second half fails. The matrix with the columns
  \<open>(1, 1, 2\<^sup>5\<^sup>3)\<close>, \<open>(1, 1, 1)\<close>, \<open>(1, 1, 1)\<close> has equal rows \<open>0\<close> and \<open>1\<close>. The closed
  form adds its terms from the left: \<open>2\<^sup>5\<^sup>3 + 1\<close> rounds to \<open>2\<^sup>5\<^sup>3\<close>, twice; then
  \<open>2\<^sup>5\<^sup>3 - 1\<close>, \<open>- 1\<close> and \<open>- 2\<close> are exact. The determinant returned is \<open>- 2\<close>.
\<close>

theorem determinant_3x3_equal_rows_double:
  "wf_mat (Mat 3 [Vec 3 1 1 (Double (2 ^ 53)) 0, Vec 3 1 1 1 0, Vec 3 1 1 1 0]) \<and>
   mat_get (Mat 3 [Vec 3 1 1 (Double (2 ^ 53)) 0, Vec 3 1 1 1 0, Vec 3 1 1 1 0]) 0 0 =
     mat_get (Mat 3 [Vec 3 1 1 (Double (2 ^ 53)) 0, Vec 3 1 1 1 0, Vec 3 1 1 1 0]) 0 1 \<and>
   mat_get (Mat 3 [Vec 3 1 1 (Double (2 ^ 53)) 0, Vec 3 1 1 1 0, Vec 3 1 1 1 0]) 1 0 =
     mat_get (Mat 3 [Vec 3 1 1 (Double (2 ^ 53)) 0, Vec 3 1 1 1 0, Vec 3 1 1 1 0]) 1 1 \<and>
   mat_get (Mat 3 [Vec 3 1 1 (Double (2 ^ 53)) 0, Vec 3 1 1 1 0, Vec 3 1 1 1 0]) 2 0 =
     mat_get (Mat 3 [Vec 3 1 1 (Double (2 ^ 53)) 0, Vec 3 1 1 1 0, Vec 3 1 1 1 0]) 2 1 \<and>
   determinant_3x3 (Mat 3 [Vec 3 1 1 (Double (2 ^ 53)) 0, Vec 3 1 1 1 0, Vec 3 1 1 1 0]) =
     Inr (Double (- 2)) \<and>
   Double (- 2) \<noteq> 0"
  by (simp add: determinant_3x3_value mat_get_eval vec_get_def subscript_def
      wf_mat_def wf_vec_def vec_of_def comp_def column_count_def
      zero_double_def one_double_def plus_double_def minus_double_def times_double_def
      round_small round_2_53 round_2_53_1)

text \<open>
  C9. For a matrix \<open>A\<close> with \<open>R\<close> rows and \<open>C\<close> columns (\<open>C \<le> 4\<close>, as the result's
  columns are vectors of dimension \<open>C\<close>), \<open>transpose(A)\<close> has \<open>C\<close> rows and \<open>R\<close> columns,
  its element in column \<open>i\<close> and row \<open>j\<close> is the element of \<open>A\<close> in column \<open>j\<close> and row
  \<open>i\<close>, and transposing it gives \<open>A\<close> back: the same value, and equal to \<open>A\<close> by the
  program's \<open>operator==\<close>.
\<close>

theorem transpose_entries_involution:
  fixes A :: "'a::zero mat"
  assumes "wf_mat A" and "column_count A \<le> 4"
  shows "\<exists>t. transpose A = Inr t \<and> wf_mat t \<and>
           row_count t = column_count A \<and> column_count t = row_count A \<and>
           (\<forall>i<row_count A. \<forall>j<column_count A. mat_get t i j = mat_get A j i) \<and>
           transpose t = Inr A \<and>
           and_then (transpose t) (\<lambda>tt. mat_eq tt A) = Inr True"
proof -
  let ?R = "row_count A" and ?C = "column_count A"
  from assms(1) have R: "0 < ?R" "?R \<le> 4" and C: "0 < ?C"
    by (simp_all add: wf_mat_def)
  have A: "A = mat_of ?R ?C (entry A)"
    using assms(1) by (rule wf_mat_eq)
  let ?t = "mat_of ?C ?R (\<lambda>c r. entry A r c)"
  have "transpose A = Inr ?t"
    using transpose_mat_of [OF R assms(2), of "entry A"] A by simp
  moreover have twice: "transpose ?t = Inr A"
    using transpose_mat_of [OF C assms(2) R(2), of "\<lambda>c r. entry A r c"] A by simp
  moreover have "\<forall>i<?R. \<forall>j<?C. mat_get ?t i j = mat_get A j i"
    using assms by (simp add: mat_get_entry)
  moreover have "and_then (transpose ?t) (\<lambda>tt. mat_eq tt A) = Inr True"
    using assms(1) by (simp add: twice mat_eq_refl)
  ultimately show ?thesis
    using R C assms(2) by simp
qed

theorem transpose_entries_involution_witness:
  "wf_mat (Mat 2 [Vec 2 1 2 0 0, Vec 2 3 4 0 0, Vec 2 5 6 0 0] :: int mat) \<and>
   column_count (Mat 2 [Vec 2 1 2 0 0, Vec 2 3 4 0 0, Vec 2 5 6 0 0] :: int mat) \<le> 4 \<and>
   transpose (Mat 2 [Vec 2 1 2 0 0, Vec 2 3 4 0 0, Vec 2 5 6 0 0] :: int mat) =
     Inr (Mat 3 [Vec 3 1 3 5 0, Vec 3 2 4 6 0]) \<and>
   transpose (Mat 3 [Vec 3 1 3 5 0, Vec 3 2 4 6 0] :: int mat) =
     Inr (Mat 2 [Vec 2 1 2 0 0, Vec 2 3 4 0 0, Vec 2 5 6 0 0])"
proof -
  let ?A = "Mat 2 [Vec 2 1 2 0 0, Vec 2 3 4 0 0, Vec 2 5 6 0 0] :: int mat"
  have wf: "wf_mat ?A"
    by (simp add: wf_mat_def wf_vec_def vec_of_def comp_def column_count_def)
  have cols: "column_count ?A \<le> 4"
    by (simp add: column_count_def)
  have "transpose ?A = Inr (Mat 3 [Vec 3 1 3 5 0, Vec 3 2 4 6 0])"
    by (simp add: transpose_def mat_default_def column_count_def mat_get_eval mat_set_def
        mat_column_def store_column_def loop_eval eval_nat_numeral)
  with transpose_entries_involution [OF wf cols] wf cols show ?thesis
    by auto
qed

text \<open>
  C10. For a quaternion \<open>q\<close> of unit norm and a 3-vector \<open>v\<close>, the conjugation \<open>q * v\<close>
  is returned and, over exact arithmetic, has the squared norm of \<open>v\<close>.
\<close>

theorem quat_mul_vec_norm_squared:
  fixes q :: "'a::comm_ring_1 quat"
  assumes "dimension q = 4" and "dimension v = 3" and "norm_squared q = Inr 1"
  shows "\<exists>r. quat_mul_vec q v = Inr r \<and> dimension r = 3 \<and> norm_squared r = norm_squared v"
proof -
  obtain a b c d where q: "q = Vec 4 a b c d"
    using assms(1) by (cases q) simp
  obtain e f g h where v: "v = Vec 3 e f g h"
    using assms(2) by (cases v) simp
  from assms(3) have unit: "a\<^sup>2 + b\<^sup>2 + c\<^sup>2 + d\<^sup>2 = 1"
    by (simp add: q norm_squared_def dot_4 power2_eq_square)
  have "(e + ((b * g - c * f) * d + (b * (a * f - b * e) - c * (c * e - a * g))) * 2)\<^sup>2
       + (f + ((c * e - a * g) * d + (c * (b * g - c * f) - a * (a * f - b * e))) * 2)\<^sup>2
       + (g + ((a * f - b * e) * d + (a * (c * e - a * g) - b * (b * g - c * f))) * 2)\<^sup>2
       = e\<^sup>2 + f\<^sup>2 + g\<^sup>2
         + 4 * ((b * g - c * f)\<^sup>2 + (c * e - a * g)\<^sup>2 + (a * f - b * e)\<^sup>2)
             * (a\<^sup>2 + b\<^sup>2 + c\<^sup>2 + d\<^sup>2 - 1)"
    by (rule conjugation_length)
  also have "\<dots> = e\<^sup>2 + f\<^sup>2 + g\<^sup>2"
    by (simp add: unit)
  finally show ?thesis
    by (simp add: q v quat_mul_vec_value norm_squared_def dot_3 power2_eq_square)
qed

theorem quat_mul_vec_norm_squared_witness:
  "dimension (Vec 4 0 0 1 0 :: int quat) = 4 \<and> dimension (Vec 3 1 2 3 0 :: int vec) = 3 \<and>
   norm_squared (Vec 4 0 0 1 0 :: int quat) = Inr 1 \<and>
   quat_mul_vec (Vec 4 0 0 1 0 :: int quat) (Vec 3 1 2 3 0) = Inr (Vec 3 (- 1) (- 2) 3 0) \<and>
   norm_squared (Vec 3 (- 1) (- 2) 3 0 :: int vec) = norm_squared (Vec 3 1 2 3 0 :: int vec)"
  using quat_mul_vec_norm_squared [of "Vec 4 0 0 1 0 :: int quat" "Vec 3 1 2 3 0"]
  by (simp add: norm_squared_def dot_4 dot_3 quat_mul_vec_value)

section \<open>Further properties\<close>

text \<open>
  For \<open>0 < C \<le> R \<le> 4\<close> the scalar constructor of \<open>mat<R, C, T>\<close> returns the
  well-formed matrix whose main diagonal holds the scalar and whose other elements are
  zero.
\<close>

theorem mat_scalar_diagonal:
  fixes s :: "'a::zero"
  assumes "0 < C" and "C \<le> R" and "R \<le> 4"
  shows "\<exists>m. mat_scalar R C s = Inr m \<and> wf_mat m \<and> row_count m = R \<and> column_count m = C \<and>
           (\<forall>c<C. \<forall>r<R. mat_get m c r = Inr (if c = r then s else 0))"
  using assms by (simp add: mat_scalar_mat_of)

theorem mat_scalar_diagonal_witness:
  "mat_scalar 3 2 (7::int) = Inr (Mat 3 [Vec 3 7 0 0 0, Vec 3 0 7 0 0]) \<and>
   mat_get (Mat 3 [Vec 3 7 0 0 0, Vec 3 0 7 0 0] :: int mat) 1 1 = Inr 7 \<and>
   mat_get (Mat 3 [Vec 3 7 0 0 0, Vec 3 0 7 0 0] :: int mat) 1 2 = Inr 0"
  using mat_scalar_diagonal [of 2 3 "7::int"]
  by (simp add: mat_scalar_mat_of mat_of_def vec_of_def upt_conv_Cons mat_get_eval vec_get_def subscript_def)

text \<open>
  For \<open>R < C\<close> (and \<open>R \<le> 4\<close>) the scalar constructor of \<open>mat<R, C, T>\<close> ends in
  \<open>std::terminate\<close>: round \<open>R\<close> of its loop indexes row \<open>R\<close> of a column of dimension
  \<open>R\<close>.
\<close>

theorem mat_scalar_terminates:
  fixes s :: "'a::zero"
  assumes "R < C" and "R \<le> 4"
  shows "mat_scalar R C s = Inl terminate"
proof -
  let ?body = "\<lambda>i m. mat_set m i i s"
  let ?m = "mat_of R C (\<lambda>c r. if c = r \<and> c < R then s else 0)"
  have "for_loop 0 R ?body (mat_default R C) = Inr ?m"
    using assms by (simp add: mat_scalar_loop)
  moreover have "mat_set ?m R R s = Inl terminate"
    using assms(1) by (simp add: mat_set_def vec_set_def subscript_out)
  moreover have "for_loop R C ?body ?m = and_then (?body R ?m) (for_loop (Suc R) C ?body)"
    using assms(1) by (rule for_loop_first)
  ultimately show ?thesis
    using assms(1) for_loop_split [of 0 R C ?body "mat_default R C"]
    by (simp add: mat_scalar_def)
qed

theorem mat_scalar_terminates_witness:
  "mat_scalar 1 2 (5::int) = Inl terminate"
  using mat_scalar_terminates [of 1 2 "5::int"] by simp

text \<open>
  The closed-form inverse of a \<open>2 \<times> 2\<close> matrix returns the adjugate with every
  element divided by \<open>m00 * m11 - m01 * m11\<close>.
\<close>

theorem inverse_2x2_divisor:
  "inverse_2x2 (Mat 2 [Vec 2 m00 m01 0 0, Vec 2 m10 m11 0 0]) =
     Inr (Mat 2 [Vec 2 (m11 / (m00 * m11 - m01 * m11)) (- m01 / (m00 * m11 - m01 * m11)) 0 0,
                 Vec 2 (- m10 / (m00 * m11 - m01 * m11)) (m00 / (m00 * m11 - m01 * m11)) 0 0])"
  by (rule inverse_2x2_value)

end
